theory Spec2Isabelle
  imports Main "HOL-Library.Word"
begin

section \<open>Peer data model\<close>

text \<open>
  The value types of the peer declarations. \<open>backend.Config\<close> and \<open>Line\<close> are declared
  elsewhere and only passed through, so they stay opaque; a Go pointer to one of them is
  an \<open>option\<close>.
\<close>

typedecl Config
typedecl Line

record Filter =
  Platform :: string

record State =
  Exited :: bool
  ExitCode :: int
  Started :: "64 word"
  Finished :: "64 word"
  Error :: string

record Pipeline =
  ID :: string
  State :: State
  Config :: "Config option"
  Timeout :: "64 word"

text \<open>The six methods that the \<open>Peer\<close> interface declares.\<close>

datatype peer_method = PeerNext | PeerNotify | PeerExtend | PeerUpdate | PeerSave | PeerLog

section \<open>The rpc client\<close>

subsection \<open>Method names, requests, errors\<close>

definition methodNext :: string where "methodNext = ''next''"
definition methodNotify :: string where "methodNotify = ''notify''"
definition methodUpdate :: string where "methodUpdate = ''update''"
definition methodLog :: string where "methodLog = ''log''"
definition methodSave :: string where "methodSave = ''save''"

text \<open>
  The \<open>req\<close> argument of \<open>call\<close> is an \<open>interface{}\<close>; the client passes \<open>nil\<close>, a pipeline
  id, or one of the three request structs \<open>updateReq\<close>, \<open>logReq\<close>, \<open>saveReq\<close>.
\<close>

datatype request =
    nilReq
  | idReq string
  | updateReq string State
  | logReq string "Line option"
  | saveReq string string "8 word list"

text \<open>What the remote side answers; the client decodes it into its \<open>res\<close> argument.\<close>

datatype response = noResult | boolResult bool | pipelineResult Pipeline

text \<open>
  Go compares error values by identity. The client tells three of them apart:
  \<open>jsonrpc2.ErrClosed\<close>, \<open>io.ErrUnexpectedEOF\<close> and \<open>io.EOF\<close>; every other error value
  is an \<open>OtherError\<close> with its message.
\<close>

datatype error = ErrClosed | ErrUnexpectedEOF | EOF | OtherError string

text \<open>
  \<open>defaultRetryClount = math.MaxInt32\<close> and \<open>defaultBackoff = 10 * time.Second\<close>; a
  \<open>time.Duration\<close> counts nanoseconds.
\<close>

definition Second :: int where "Second = 1000000000"
definition defaultRetryClount :: int where "defaultRetryClount = 2147483647"
definition defaultBackoff :: int where "defaultBackoff = 10 * Second"

subsection \<open>Client state and the outside world\<close>

text \<open>
  A connection is a handle; \<open>conn = None\<close> is the nil pointer. The field \<open>done\<close> of the
  source is \<open>done_flag\<close> here. The embedded mutex has no state of its own in a sequential
  run: \<open>Lock\<close>/\<open>Unlock\<close> delimit the steps that are atomic in the interleaved runs
  further down.
\<close>

type_synonym handle = nat

record client =
  conn :: "handle option"
  done_flag :: bool
  retry :: int
  backoff :: int
  endpoint :: string

text \<open>
  Everything the client does to the outside is an event: a websocket dial, a remote call
  on a connection, a wait for the backoff timer, closing a connection. The world is the
  history of events so far.
\<close>

datatype event =
    Dial string
  | Call handle string request
  | Sleep int
  | CloseConn handle

type_synonym world = "event list"

text \<open>
  The websocket dialer and the jsonrpc2 connection are libraries outside this code. They
  are a parameter: each answer may depend on the whole history.
\<close>

record net =
  dial_result :: "world \<Rightarrow> string \<Rightarrow> error option"
  call_result :: "world \<Rightarrow> handle \<Rightarrow> string \<Rightarrow> request \<Rightarrow> error + response"
  close_result :: "world \<Rightarrow> handle \<Rightarrow> error option"

text \<open>
  A method called through a nil \<open>*jsonrpc2.Conn\<close> dereferences nil and panics; a call that
  comes back carries its value.
\<close>

datatype 'a outcome = Panic | Return 'a

fun is_Dial :: "event \<Rightarrow> bool" where
  "is_Dial (Dial ep) = True"
| "is_Dial ev = False"

fun is_Call :: "event \<Rightarrow> bool" where
  "is_Call (Call h name req) = True"
| "is_Call ev = False"

fun is_Sleep :: "event \<Rightarrow> bool" where
  "is_Sleep (Sleep d) = True"
| "is_Sleep ev = False"

definition dials :: "world \<Rightarrow> nat" where
  "dials w = length (filter is_Dial w)"

definition attempts :: "world \<Rightarrow> nat" where
  "attempts w = length (filter is_Call w)"

definition sleeps :: "world \<Rightarrow> nat" where
  "sleeps w = length (filter is_Sleep w)"

subsection \<open>open, openRetry\<close>

text \<open>
  \<open>open\<close>: under the lock, give up with \<open>io.EOF\<close> when the client is done; otherwise dial
  the endpoint and install the new connection. Each successful dial makes a connection
  of its own, numbered by the dials before it.
\<close>

definition open_conn :: "net \<Rightarrow> client \<Rightarrow> world \<Rightarrow> error option \<times> client \<times> world" where
  "open_conn n t w =
     (if done_flag t then (Some EOF, t, w)
      else (case dial_result n w (endpoint t) of
              Some err \<Rightarrow> (Some err, t, w @ [Dial (endpoint t)])
            | None \<Rightarrow> (None, t\<lparr>conn := Some (dials w)\<rparr>, w @ [Dial (endpoint t)])))"

text \<open>
  \<open>openRetry\<close>: the loop \<open>for i := 0; i < t.retry; i++\<close>. A nil error breaks out, \<open>io.EOF\<close>
  returns, any other error waits for the backoff and goes round again; after the loop
  the function returns nil. The field \<open>retry\<close> is a Go \<open>int\<close>; \<open>i\<close> stays below it, so \<open>i++\<close>
  never overflows and an unbounded integer models both.
\<close>

function openRetry_loop :: "net \<Rightarrow> int \<Rightarrow> client \<Rightarrow> world \<Rightarrow> error option \<times> client \<times> world" where
  "openRetry_loop n i t w =
     (if i < retry t then
        (case open_conn n t w of
           (None, t', w') \<Rightarrow> (None, t', w')
         | (Some err, t', w') \<Rightarrow>
             if err = EOF then (Some err, t', w')
             else openRetry_loop n (i + 1) t' (w' @ [Sleep (backoff t')]))
      else (None, t, w))"
  by pat_completeness auto
termination
  apply (relation "measure (\<lambda>(n, i, t, w). nat (retry t - i))")
   apply simp
  apply (auto simp: open_conn_def split: if_splits option.splits)
  done

definition openRetry :: "net \<Rightarrow> client \<Rightarrow> world \<Rightarrow> error option \<times> client \<times> world" where
  "openRetry n t w = openRetry_loop n 0 t w"

subsection \<open>call\<close>

text \<open>\<open>t.conn.Call(ctx, name, req, res)\<close> on the current connection.\<close>

definition conn_Call ::
  "net \<Rightarrow> client \<Rightarrow> world \<Rightarrow> string \<Rightarrow> request \<Rightarrow> (error + response) outcome \<times> world" where
  "conn_Call n t w name req =
     (case conn t of
        None \<Rightarrow> (Panic, w)
      | Some h \<Rightarrow> (Return (call_result n w h name req), w @ [Call h name req]))"

text \<open>
  \<open>call\<close>: a nil error returns; an error other than \<open>ErrClosed\<close> and \<open>ErrUnexpectedEOF\<close>
  returns as it is; otherwise \<open>openRetry\<close>, whose error returns, and then the same call
  once more on the current connection, whose result returns.
\<close>

definition call ::
  "net \<Rightarrow> client \<Rightarrow> world \<Rightarrow> string \<Rightarrow> request \<Rightarrow> (error + response) outcome \<times> client \<times> world" where
  "call n t w name req =
     (case conn_Call n t w name req of
        (Panic, w1) \<Rightarrow> (Panic, t, w1)
      | (Return (Inr res), w1) \<Rightarrow> (Return (Inr res), t, w1)
      | (Return (Inl err), w1) \<Rightarrow>
          if err \<noteq> ErrClosed \<and> err \<noteq> ErrUnexpectedEOF then (Return (Inl err), t, w1)
          else (case openRetry n t w1 of
                  (Some err', t', w2) \<Rightarrow> (Return (Inl err'), t', w2)
                | (None, t', w2) \<Rightarrow>
                    (case conn_Call n t' w2 name req of (r, w3) \<Rightarrow> (r, t', w3))))"

subsection \<open>Close\<close>

text \<open>\<open>Close\<close> sets \<open>done\<close> under the lock and returns \<open>t.conn.Close()\<close>.\<close>

definition Close :: "net \<Rightarrow> client \<Rightarrow> world \<Rightarrow> error option outcome \<times> client \<times> world" where
  "Close n t w =
     (let t' = t\<lparr>done_flag := True\<rparr>
      in case conn t' of
           None \<Rightarrow> (Panic, t', w)
         | Some h \<Rightarrow> (Return (close_result n w h), t', w @ [CloseConn h]))"

subsection \<open>NewClient\<close>

text \<open>
  An \<open>Option\<close> is a function applied to the new client; the type is declared outside
  this file. \<open>NewClient\<close> returns the client together with the error of \<open>openRetry\<close>.
\<close>

type_synonym Option = "client \<Rightarrow> client"

definition initClient :: "string \<Rightarrow> client" where
  "initClient ep =
     \<lparr>conn = None, done_flag = False, retry = defaultRetryClount,
      backoff = defaultBackoff, endpoint = ep\<rparr>"

definition NewClient :: "net \<Rightarrow> string \<Rightarrow> Option list \<Rightarrow> world \<Rightarrow> error option \<times> client \<times> world" where
  "NewClient n ep opts w = openRetry n (foldl (\<lambda>cli opt. opt cli) (initClient ep) opts) w"

subsection \<open>The peer methods of the client\<close>

definition zeroState :: State where
  "zeroState = \<lparr>Exited = False, ExitCode = 0, Started = 0, Finished = 0, Error = []\<rparr>"

definition zeroPipeline :: Pipeline where
  "zeroPipeline = \<lparr>ID = [], State = zeroState, Config = None, Timeout = 0\<rparr>"

text \<open>
  \<open>conn.Call\<close> decodes the answer into \<open>res\<close> with \<open>json.Unmarshal\<close>. A null answer leaves
  the zero value that the method allocated and is no error; an answer of another shape
  leaves the zero value too and makes \<open>conn.Call\<close> return a \<open>json.UnmarshalTypeError\<close>,
  which is not a connectivity error, so \<open>call\<close> returns it without a retry. An error of
  the call leaves the zero value and is returned.
\<close>

fun pipeline_of :: "error + response \<Rightarrow> Pipeline \<times> error option" where
  "pipeline_of (Inl err) = (zeroPipeline, Some err)"
| "pipeline_of (Inr (pipelineResult p)) = (p, None)"
| "pipeline_of (Inr noResult) = (zeroPipeline, None)"
| "pipeline_of (Inr (boolResult b)) =
     (zeroPipeline, Some (OtherError ''json: cannot unmarshal bool into Go value of type rpc.Pipeline''))"

fun bool_of :: "error + response \<Rightarrow> bool \<times> error option" where
  "bool_of (Inl err) = (False, Some err)"
| "bool_of (Inr (boolResult b)) = (b, None)"
| "bool_of (Inr noResult) = (False, None)"
| "bool_of (Inr (pipelineResult p)) =
     (False, Some (OtherError ''json: cannot unmarshal object into Go value of type bool''))"

text \<open>\<open>Update\<close>, \<open>Log\<close> and \<open>Save\<close> pass a nil \<open>res\<close>: nothing is decoded.\<close>

fun error_of :: "error + response \<Rightarrow> error option" where
  "error_of (Inl err) = Some err"
| "error_of (Inr res) = None"

fun map_outcome :: "('a \<Rightarrow> 'b) \<Rightarrow> 'a outcome \<Rightarrow> 'b outcome" where
  "map_outcome f Panic = Panic"
| "map_outcome f (Return x) = Return (f x)"

definition Next :: "net \<Rightarrow> client \<Rightarrow> world \<Rightarrow> (Pipeline \<times> error option) outcome \<times> client \<times> world" where
  "Next n t w =
     (case call n t w methodNext nilReq of
        (r, t', w') \<Rightarrow> (map_outcome pipeline_of r, t', w'))"

definition Notify ::
  "net \<Rightarrow> client \<Rightarrow> world \<Rightarrow> string \<Rightarrow> (bool \<times> error option) outcome \<times> client \<times> world" where
  "Notify n t w pid =
     (case call n t w methodNotify (idReq pid) of
        (r, t', w') \<Rightarrow> (map_outcome bool_of r, t', w'))"

definition Update ::
  "net \<Rightarrow> client \<Rightarrow> world \<Rightarrow> string \<Rightarrow> State \<Rightarrow> error option outcome \<times> client \<times> world" where
  "Update n t w pid st =
     (case call n t w methodUpdate (updateReq pid st) of
        (r, t', w') \<Rightarrow> (map_outcome error_of r, t', w'))"

definition Log ::
  "net \<Rightarrow> client \<Rightarrow> world \<Rightarrow> string \<Rightarrow> Line option \<Rightarrow> error option outcome \<times> client \<times> world" where
  "Log n t w pid line =
     (case call n t w methodLog (logReq pid line) of
        (r, t', w') \<Rightarrow> (map_outcome error_of r, t', w'))"

text \<open>
  An \<open>io.Reader\<close> is the sequence of what its \<open>Read\<close> calls give: chunks of bytes, or an
  error; after the last one the reader is at end of file. \<open>ioutil.ReadAll\<close> collects the
  chunks up to the end or the first error, and does not report \<open>io.EOF\<close> as an error.
\<close>

datatype read_step = Chunk "8 word list" | Fail error

type_synonym reader = "read_step list"

fun ReadAll_from :: "8 word list \<Rightarrow> reader \<Rightarrow> 8 word list \<times> error option" where
  "ReadAll_from acc [] = (acc, None)"
| "ReadAll_from acc (Chunk bs # rest) = ReadAll_from (acc @ bs) rest"
| "ReadAll_from acc (Fail err # rest) = (acc, if err = EOF then None else Some err)"

definition ReadAll :: "reader \<Rightarrow> 8 word list \<times> error option" where
  "ReadAll file = ReadAll_from [] file"

definition Save ::
  "net \<Rightarrow> client \<Rightarrow> world \<Rightarrow> string \<Rightarrow> string \<Rightarrow> reader \<Rightarrow> error option outcome \<times> client \<times> world" where
  "Save n t w pid mime file =
     (case ReadAll file of
        (data, Some err) \<Rightarrow> (Return (Some err), t, w)
      | (data, None) \<Rightarrow>
          (case call n t w methodSave (saveReq pid mime data) of
             (r, t', w') \<Rightarrow> (map_outcome error_of r, t', w')))"

text \<open>
  The remote method name behind each method of the \<open>Peer\<close> interface, as the client
  declares it: \<open>None\<close> where the client has no such method.
\<close>

fun client_method :: "peer_method \<Rightarrow> string option" where
  "client_method PeerNext = Some methodNext"
| "client_method PeerNotify = Some methodNotify"
| "client_method PeerUpdate = Some methodUpdate"
| "client_method PeerLog = Some methodLog"
| "client_method PeerSave = Some methodSave"
| "client_method PeerExtend = None"

section \<open>Two callers on one client\<close>

text \<open>
  Several workers may run \<open>call\<close> on the same client. One run of \<open>call\<close> is cut into its
  steps on the shared state: the first \<open>t.conn.Call\<close>, each round of the loop of
  \<open>openRetry\<close> (one \<open>open\<close>, which holds the lock from its test of \<open>done\<close> to the end of
  the dial, and the wait that follows a failed dial), and the second \<open>t.conn.Call\<close>. The
  program counter of a caller says which step is next; \<open>InOpenRetry i\<close> carries the loop
  variable.
\<close>

datatype pc = AtFirst | InOpenRetry int | AtReplay | Completed "(error + response) outcome"

fun thread_step ::
  "net \<Rightarrow> string \<Rightarrow> request \<Rightarrow> pc \<times> client \<times> world \<Rightarrow> pc \<times> client \<times> world" where
  "thread_step n name req (AtFirst, t, w) =
     (case conn_Call n t w name req of
        (Panic, w1) \<Rightarrow> (Completed Panic, t, w1)
      | (Return (Inr res), w1) \<Rightarrow> (Completed (Return (Inr res)), t, w1)
      | (Return (Inl err), w1) \<Rightarrow>
          if err \<noteq> ErrClosed \<and> err \<noteq> ErrUnexpectedEOF
          then (Completed (Return (Inl err)), t, w1)
          else (InOpenRetry 0, t, w1))"
| "thread_step n name req (InOpenRetry i, t, w) =
     (if i < retry t then
        (case open_conn n t w of
           (None, t', w') \<Rightarrow> (AtReplay, t', w')
         | (Some err, t', w') \<Rightarrow>
             if err = EOF then (Completed (Return (Inl err)), t', w')
             else (InOpenRetry (i + 1), t', w' @ [Sleep (backoff t')]))
      else (AtReplay, t, w))"
| "thread_step n name req (AtReplay, t, w) =
     (case conn_Call n t w name req of (r, w3) \<Rightarrow> (Completed r, t, w3))"
| "thread_step n name req (Completed r, t, w) = (Completed r, t, w)"

text \<open>
  Two callers, each with the method name and request of its call; a schedule says who
  takes the next step.
\<close>

datatype caller = CallerA | CallerB

fun sys_step ::
  "net \<Rightarrow> string \<times> request \<Rightarrow> string \<times> request \<Rightarrow> pc \<times> pc \<times> client \<times> world \<Rightarrow> caller \<Rightarrow>
     pc \<times> pc \<times> client \<times> world" where
  "sys_step n ca cb (pa, pb, t, w) CallerA =
     (case thread_step n (fst ca) (snd ca) (pa, t, w) of (pa', t', w') \<Rightarrow> (pa', pb, t', w'))"
| "sys_step n ca cb (pa, pb, t, w) CallerB =
     (case thread_step n (fst cb) (snd cb) (pb, t, w) of (pb', t', w') \<Rightarrow> (pa, pb', t', w'))"

definition run ::
  "net \<Rightarrow> string \<times> request \<Rightarrow> string \<times> request \<Rightarrow> caller list \<Rightarrow>
     pc \<times> pc \<times> client \<times> world \<Rightarrow> pc \<times> pc \<times> client \<times> world" where
  "run n ca cb sched s = foldl (sys_step n ca cb) s sched"

section \<open>Notions used in the statements\<close>

text \<open>The events of \<open>k\<close> failed rounds of the retry loop: a dial and a wait, \<open>k\<close> times.\<close>

definition backoff_rounds :: "client \<Rightarrow> nat \<Rightarrow> world" where
  "backoff_rounds t k = concat (replicate k [Dial (endpoint t), Sleep (backoff t)])"

text \<open>A dial result that makes the loop wait and go on: an error other than \<open>io.EOF\<close>.\<close>

fun non_terminal_failure :: "error option \<Rightarrow> bool" where
  "non_terminal_failure None = False"
| "non_terminal_failure (Some err) = (err \<noteq> EOF)"

text \<open>
  A caller that has failed its first attempt and not yet called \<open>open\<close> still owes its
  first dial.
\<close>

fun owes :: "pc \<Rightarrow> nat" where
  "owes (InOpenRetry i) = (if i = 0 then 1 else 0)"
| "owes p = 0"

fun reconnecting :: "pc \<Rightarrow> bool" where
  "reconnecting AtFirst = False"
| "reconnecting (InOpenRetry i) = (i = 0)"
| "reconnecting p = True"

definition settled :: "nat \<Rightarrow> pc \<times> pc \<times> client \<times> world \<Rightarrow> bool" where
  "settled d s =
     (case s of (pa, pb, t, w) \<Rightarrow>
        reconnecting pa \<and> reconnecting pb \<and> \<not> done_flag t \<and> 0 < retry t \<and>
        dials w + owes pa + owes pb = d + 2 \<and>
        (d < dials w \<longrightarrow> conn t = Some (dials w - 1)))"

subsection \<open>Concrete clients and networks\<close>

text \<open>
  A network whose dials all give \<open>d\<close> and whose calls answer by connection. Closing
  follows \<open>jsonrpc2.Conn.Close\<close>: a connection that has been closed before answers
  \<open>ErrClosed\<close>.
\<close>

definition scripted_net :: "error option \<Rightarrow> (handle \<Rightarrow> error + response) \<Rightarrow> net" where
  "scripted_net d c =
     \<lparr>dial_result = (\<lambda>w ep. d), call_result = (\<lambda>w h name req. c h),
      close_result = (\<lambda>w h. if CloseConn h \<in> set w then Some ErrClosed else None)\<rparr>"

text \<open>Connection 7 has dropped; dials succeed and the new connections work.\<close>

definition dropped :: net where
  "dropped = scripted_net None (\<lambda>h. if h = 7 then Inl ErrClosed else Inr noResult)"

text \<open>The endpoint refuses the first two dials and accepts from the third on.\<close>

definition starting :: net where
  "starting =
     \<lparr>dial_result = (\<lambda>w ep. if dials w < 2 then Some (OtherError ''connection refused'') else None),
      call_result = (\<lambda>w h name req. Inr noResult),
      close_result = (\<lambda>w h. if CloseConn h \<in> set w then Some ErrClosed else None)\<rparr>"

definition worker :: client where
  "worker = \<lparr>conn = Some 7, done_flag = False, retry = 3, backoff = 5, endpoint = ''ws://queue''\<rparr>"

section \<open>Facts about the definitions\<close>

text \<open>
  The loop equation of \<open>openRetry_loop\<close> rewrites its own right-hand side, so it is not a
  simplification rule; the five lemmas on one round of the loop take its place.
\<close>

declare openRetry_loop.simps [simp del]

lemma attempts_append [simp]: "attempts (w @ v) = attempts w + attempts v"
  by (simp add: attempts_def)

lemma dials_append [simp]: "dials (w @ v) = dials w + dials v"
  by (simp add: dials_def)

lemma sleeps_append [simp]: "sleeps (w @ v) = sleeps w + sleeps v"
  by (simp add: sleeps_def)

lemma attempts_Cons [simp]:
  "attempts (Dial ep # w) = attempts w" "attempts (Sleep d # w) = attempts w"
  "attempts (CloseConn h # w) = attempts w" "attempts (Call h name req # w) = Suc (attempts w)"
  "attempts [] = 0"
  by (simp_all add: attempts_def)

lemma dials_Cons [simp]:
  "dials (Dial ep # w) = Suc (dials w)" "dials (Sleep d # w) = dials w"
  "dials (CloseConn h # w) = dials w" "dials (Call h name req # w) = dials w"
  "dials [] = 0"
  by (simp_all add: dials_def)

lemma sleeps_Cons [simp]:
  "sleeps (Dial ep # w) = sleeps w" "sleeps (Sleep d # w) = Suc (sleeps w)"
  "sleeps (CloseConn h # w) = sleeps w" "sleeps (Call h name req # w) = sleeps w"
  "sleeps [] = 0"
  by (simp_all add: sleeps_def)

subsection \<open>One round of the retry loop\<close>

lemma open_conn_done: "done_flag t \<Longrightarrow> open_conn n t w = (Some EOF, t, w)"
  by (simp add: open_conn_def)

lemma open_conn_dialled:
  "\<not> done_flag t \<Longrightarrow> dial_result n w (endpoint t) = None \<Longrightarrow>
     open_conn n t w = (None, t\<lparr>conn := Some (dials w)\<rparr>, w @ [Dial (endpoint t)])"
  by (simp add: open_conn_def)

lemma open_conn_failed:
  "\<not> done_flag t \<Longrightarrow> dial_result n w (endpoint t) = Some err \<Longrightarrow>
     open_conn n t w = (Some err, t, w @ [Dial (endpoint t)])"
  by (simp add: open_conn_def)

lemma loop_over: "\<not> i < retry t \<Longrightarrow> openRetry_loop n i t w = (None, t, w)"
  by (simp add: openRetry_loop.simps [of n i t w])

lemma loop_done: "i < retry t \<Longrightarrow> done_flag t \<Longrightarrow> openRetry_loop n i t w = (Some EOF, t, w)"
  by (simp add: openRetry_loop.simps [of n i t w] open_conn_done)

lemma loop_dialled:
  "i < retry t \<Longrightarrow> \<not> done_flag t \<Longrightarrow> dial_result n w (endpoint t) = None \<Longrightarrow>
     openRetry_loop n i t w = (None, t\<lparr>conn := Some (dials w)\<rparr>, w @ [Dial (endpoint t)])"
  by (simp add: openRetry_loop.simps [of n i t w] open_conn_dialled)

lemma loop_eof:
  "i < retry t \<Longrightarrow> \<not> done_flag t \<Longrightarrow> dial_result n w (endpoint t) = Some EOF \<Longrightarrow>
     openRetry_loop n i t w = (Some EOF, t, w @ [Dial (endpoint t)])"
  by (simp add: openRetry_loop.simps [of n i t w] open_conn_failed)

lemma loop_again:
  "i < retry t \<Longrightarrow> \<not> done_flag t \<Longrightarrow> dial_result n w (endpoint t) = Some err \<Longrightarrow>
     err \<noteq> EOF \<Longrightarrow>
     openRetry_loop n i t w =
       openRetry_loop n (i + 1) t (w @ [Dial (endpoint t), Sleep (backoff t)])"
  by (simp add: openRetry_loop.simps [of n i t w] open_conn_failed)

lemma loop_rounds:
  obtains (over) "\<not> i < retry t" | (closed) "i < retry t" "done_flag t"
    | (ok) "i < retry t" "\<not> done_flag t" "dial_result n w (endpoint t) = None"
    | (eof) "i < retry t" "\<not> done_flag t" "dial_result n w (endpoint t) = Some EOF"
    | (again) err where "i < retry t" "\<not> done_flag t"
        "dial_result n w (endpoint t) = Some err" "err \<noteq> EOF"
  by (cases "dial_result n w (endpoint t)") auto

lemma openRetry_loop_keeps:
  "openRetry_loop n i t w = (r, t', w') \<Longrightarrow>
     retry t' = retry t \<and> backoff t' = backoff t \<and> endpoint t' = endpoint t \<and>
     done_flag t' = done_flag t \<and> attempts w' = attempts w \<and>
     (conn t \<noteq> None \<longrightarrow> conn t' \<noteq> None)"
proof (induction n i t w rule: openRetry_loop.induct)
  case (1 n i t w)
  show ?case
  proof (cases rule: loop_rounds [where i = i and t = t and n = n and w = w])
    case over
    with "1.prems" show ?thesis by (simp add: loop_over)
  next
    case closed
    with "1.prems" show ?thesis by (simp add: loop_done)
  next
    case ok
    with "1.prems" show ?thesis by (auto simp: loop_dialled)
  next
    case eof
    with "1.prems" show ?thesis by (auto simp: loop_eof)
  next
    case (again err)
    from again have o: "(Some err, t, w @ [Dial (endpoint t)]) = open_conn n t w"
      by (simp add: open_conn_failed)
    from again "1.prems"
    have rec: "openRetry_loop n (i + 1) t ((w @ [Dial (endpoint t)]) @ [Sleep (backoff t)])
        = (r, t', w')"
      by (simp add: loop_again)
    from "1.IH" [OF again(1) o refl refl again(4) rec] show ?thesis
      by simp
  qed
qed

lemma openRetry_keeps:
  "openRetry n t w = (r, t', w') \<Longrightarrow>
     retry t' = retry t \<and> backoff t' = backoff t \<and> endpoint t' = endpoint t \<and>
     done_flag t' = done_flag t \<and> attempts w' = attempts w \<and>
     (conn t \<noteq> None \<longrightarrow> conn t' \<noteq> None)"
  unfolding openRetry_def by (rule openRetry_loop_keeps)

lemma backoff_rounds_Suc:
  "backoff_rounds t (Suc k) = [Dial (endpoint t), Sleep (backoff t)] @ backoff_rounds t k"
  by (simp add: backoff_rounds_def)

lemma backoff_rounds_0: "backoff_rounds t 0 = []"
  by (simp add: backoff_rounds_def)

lemma openRetry_loop_exhausted:
  "\<not> done_flag t \<Longrightarrow>
   \<forall>k < m. non_terminal_failure (dial_result n (w @ backoff_rounds t k) (endpoint t)) \<Longrightarrow>
   m = nat (retry t - i) \<Longrightarrow>
   openRetry_loop n i t w = (None, t, w @ backoff_rounds t m)"
proof (induction m arbitrary: i w)
  case 0
  then show ?case by (simp add: loop_over backoff_rounds_0)
next
  case (Suc m)
  from Suc.prems(3) have lt: "i < retry t" and m: "m = nat (retry t - (i + 1))"
    by auto
  from Suc.prems(2) have "non_terminal_failure (dial_result n (w @ backoff_rounds t 0) (endpoint t))"
    by blast
  then obtain err where err: "dial_result n w (endpoint t) = Some err" "err \<noteq> EOF"
    by (cases "dial_result n w (endpoint t)") (auto simp: backoff_rounds_0)
  have "\<forall>k<m. non_terminal_failure
      (dial_result n ((w @ [Dial (endpoint t), Sleep (backoff t)]) @ backoff_rounds t k) (endpoint t))"
  proof (intro allI impI)
    fix k assume "k < m"
    then have "Suc k < Suc m" by simp
    with Suc.prems(2) have "non_terminal_failure
      (dial_result n (w @ backoff_rounds t (Suc k)) (endpoint t))"
      by blast
    then show "non_terminal_failure
      (dial_result n ((w @ [Dial (endpoint t), Sleep (backoff t)]) @ backoff_rounds t k) (endpoint t))"
      by (simp add: backoff_rounds_Suc)
  qed
  from Suc.IH [OF Suc.prems(1) this m]
  have "openRetry_loop n (i + 1) t (w @ [Dial (endpoint t), Sleep (backoff t)])
      = (None, t, (w @ [Dial (endpoint t), Sleep (backoff t)]) @ backoff_rounds t m)" .
  with lt err Suc.prems(1) show ?case
    by (simp add: loop_again backoff_rounds_Suc)
qed

lemma openRetry_loop_dials_after:
  "\<not> done_flag t \<Longrightarrow>
   \<forall>j < k. non_terminal_failure (dial_result n (w @ backoff_rounds t j) (endpoint t)) \<Longrightarrow>
   dial_result n (w @ backoff_rounds t k) (endpoint t) = None \<Longrightarrow>
   i + int k < retry t \<Longrightarrow>
   openRetry_loop n i t w =
     (None, t\<lparr>conn := Some (dials w + k)\<rparr>, w @ backoff_rounds t k @ [Dial (endpoint t)])"
proof (induction k arbitrary: i w)
  case 0
  then show ?case by (simp add: loop_dialled backoff_rounds_0)
next
  case (Suc k)
  from Suc.prems(4) have lt: "i < retry t" and lt': "(i + 1) + int k < retry t"
    by auto
  from Suc.prems(2) have "non_terminal_failure (dial_result n (w @ backoff_rounds t 0) (endpoint t))"
    by blast
  then obtain err where err: "dial_result n w (endpoint t) = Some err" "err \<noteq> EOF"
    by (cases "dial_result n w (endpoint t)") (auto simp: backoff_rounds_0)
  let ?w = "w @ [Dial (endpoint t), Sleep (backoff t)]"
  have fails: "\<forall>j<k. non_terminal_failure (dial_result n (?w @ backoff_rounds t j) (endpoint t))"
  proof (intro allI impI)
    fix j assume "j < k"
    then have "Suc j < Suc k" by simp
    with Suc.prems(2) have "non_terminal_failure
      (dial_result n (w @ backoff_rounds t (Suc j)) (endpoint t))"
      by blast
    then show "non_terminal_failure (dial_result n (?w @ backoff_rounds t j) (endpoint t))"
      by (simp add: backoff_rounds_Suc)
  qed
  from Suc.prems(3) have ok: "dial_result n (?w @ backoff_rounds t k) (endpoint t) = None"
    by (simp add: backoff_rounds_Suc)
  from Suc.IH [OF Suc.prems(1) fails ok lt']
  have "openRetry_loop n (i + 1) t ?w =
      (None, t\<lparr>conn := Some (dials ?w + k)\<rparr>, ?w @ backoff_rounds t k @ [Dial (endpoint t)])" .
  with lt err Suc.prems(1) show ?case
    by (simp add: loop_again backoff_rounds_Suc)
qed

lemma conn_Call_Some:
  "conn t = Some h \<Longrightarrow>
     conn_Call n t w name req = (Return (call_result n w h name req), w @ [Call h name req])"
  by (simp add: conn_Call_def)

lemma conn_Call_None: "conn t = None \<Longrightarrow> conn_Call n t w name req = (Panic, w)"
  by (simp add: conn_Call_def)

lemma conn_Call_dials: "conn_Call n t w name req = (r, w') \<Longrightarrow> dials w' = dials w"
  by (auto simp: conn_Call_def split: option.splits)

lemma call_returns:
  assumes "conn t = Some h"
  shows "fst (call n t w name req) \<noteq> Panic"
proof -
  obtain r1 t1 w1 where o: "openRetry n t (w @ [Call h name req]) = (r1, t1, w1)"
    by (cases "openRetry n t (w @ [Call h name req])") auto
  from openRetry_keeps [OF o] assms obtain h1 where "conn t1 = Some h1"
    by auto
  with assms o show ?thesis
    by (auto simp: call_def conn_Call_Some split: sum.splits option.splits)
qed

lemma ReadAll_from_chunks: "ReadAll_from acc (map Chunk cs) = (acc @ concat cs, None)"
  by (induction cs arbitrary: acc) simp_all

lemma ReadAll_from_fail:
  "ReadAll_from acc (map Chunk cs @ Fail err # rest) =
     (acc @ concat cs, if err = EOF then None else Some err)"
  by (induction cs arbitrary: acc) simp_all

subsection \<open>The steps of a caller make up call\<close>

lemma funpow_step_first: "(f ^^ Suc k) s = (f ^^ k) (f s)"
  by (simp add: funpow_swap1)

lemma thread_openRetry:
  "\<exists>k. (thread_step n name req ^^ k) (InOpenRetry i, t, w) =
     (case openRetry_loop n i t w of
        (None, t', w') \<Rightarrow> (AtReplay, t', w')
      | (Some err, t', w') \<Rightarrow> (Completed (Return (Inl err)), t', w'))"
proof (induction n i t w rule: openRetry_loop.induct)
  case (1 n i t w)
  show ?case
  proof (cases rule: loop_rounds [where i = i and t = t and n = n and w = w])
    case over
    then have "(thread_step n name req ^^ 1) (InOpenRetry i, t, w) = (AtReplay, t, w)"
      by simp
    then show ?thesis unfolding loop_over [OF over] by (intro exI [of _ 1]) simp
  next
    case closed
    then have "(thread_step n name req ^^ 1) (InOpenRetry i, t, w) =
        (Completed (Return (Inl EOF)), t, w)"
      by (simp add: open_conn_done)
    then show ?thesis unfolding loop_done [OF closed] by (intro exI [of _ 1]) simp
  next
    case ok
    then have "(thread_step n name req ^^ 1) (InOpenRetry i, t, w) =
        (AtReplay, t\<lparr>conn := Some (dials w)\<rparr>, w @ [Dial (endpoint t)])"
      by (simp add: open_conn_dialled)
    then show ?thesis unfolding loop_dialled [OF ok] by (intro exI [of _ 1]) simp
  next
    case eof
    then have "(thread_step n name req ^^ 1) (InOpenRetry i, t, w) =
        (Completed (Return (Inl EOF)), t, w @ [Dial (endpoint t)])"
      by (simp add: open_conn_failed)
    then show ?thesis unfolding loop_eof [OF eof] by (intro exI [of _ 1]) simp
  next
    case (again err)
    from again have o: "(Some err, t, w @ [Dial (endpoint t)]) = open_conn n t w"
      by (simp add: open_conn_failed)
    from "1.IH" [OF again(1) o refl refl again(4)]
    obtain k where k: "(thread_step n name req ^^ k)
        (InOpenRetry (i + 1), t, (w @ [Dial (endpoint t)]) @ [Sleep (backoff t)]) =
        (case openRetry_loop n (i + 1) t ((w @ [Dial (endpoint t)]) @ [Sleep (backoff t)]) of
           (None, t', w') \<Rightarrow> (AtReplay, t', w')
         | (Some err, t', w') \<Rightarrow> (Completed (Return (Inl err)), t', w'))"
      by blast
    from again have s: "thread_step n name req (InOpenRetry i, t, w) =
        (InOpenRetry (i + 1), t, (w @ [Dial (endpoint t)]) @ [Sleep (backoff t)])"
      by (simp add: open_conn_failed)
    have "(thread_step n name req ^^ Suc k) (InOpenRetry i, t, w) =
        (case openRetry_loop n i t w of
           (None, t', w') \<Rightarrow> (AtReplay, t', w')
         | (Some err, t', w') \<Rightarrow> (Completed (Return (Inl err)), t', w'))"
      unfolding funpow_step_first s k using again by (simp add: loop_again)
    then show ?thesis by blast
  qed
qed

lemma thread_refines_call:
  "\<exists>k. (thread_step n name req ^^ k) (AtFirst, t, w) =
     (case call n t w name req of (r, t', w') \<Rightarrow> (Completed r, t', w'))"
proof -
  let ?f = "thread_step n name req"
  obtain r0 w1 where c0: "conn_Call n t w name req = (r0, w1)"
    by (cases "conn_Call n t w name req") auto
  show ?thesis
  proof (cases "\<exists>err. r0 = Return (Inl err) \<and> (err = ErrClosed \<or> err = ErrUnexpectedEOF)")
    case False
    with c0 have "(?f ^^ 1) (AtFirst, t, w) =
        (case call n t w name req of (r, t', w') \<Rightarrow> (Completed r, t', w'))"
      by (cases r0) (auto simp: call_def split: sum.splits)
    then show ?thesis by blast
  next
    case True
    then obtain err where r0: "r0 = Return (Inl err)" "err = ErrClosed \<or> err = ErrUnexpectedEOF"
      by blast
    with c0 have s1: "?f (AtFirst, t, w) = (InOpenRetry 0, t, w1)"
      by auto
    obtain k where k: "(?f ^^ k) (InOpenRetry 0, t, w1) =
        (case openRetry n t w1 of
           (None, t', w') \<Rightarrow> (AtReplay, t', w')
         | (Some err, t', w') \<Rightarrow> (Completed (Return (Inl err)), t', w'))"
      using thread_openRetry [of n name req 0 t w1] unfolding openRetry_def by blast
    obtain r1 t1 w2 where o: "openRetry n t w1 = (r1, t1, w2)"
      by (cases "openRetry n t w1") auto
    show ?thesis
    proof (cases r1)
      case (Some err1)
      with k o have "(?f ^^ Suc k) (AtFirst, t, w) = (Completed (Return (Inl err1)), t1, w2)"
        unfolding funpow_step_first s1 by simp
      moreover from c0 r0 o Some have "call n t w name req = (Return (Inl err1), t1, w2)"
        by (auto simp: call_def)
      ultimately show ?thesis by (intro exI [of _ "Suc k"]) simp
    next
      case None
      obtain r3 w3 where c3: "conn_Call n t1 w2 name req = (r3, w3)"
        by (cases "conn_Call n t1 w2 name req") auto
      from None k o have a: "(?f ^^ Suc k) (AtFirst, t, w) = (AtReplay, t1, w2)"
        unfolding funpow_step_first s1 by simp
      have "(?f ^^ Suc (Suc k)) (AtFirst, t, w) = ?f ((?f ^^ Suc k) (AtFirst, t, w))"
        by (simp only: funpow.simps o_apply)
      with a c3 have "(?f ^^ Suc (Suc k)) (AtFirst, t, w) = (Completed r3, t1, w3)"
        by simp
      moreover from c0 r0 o None c3 have "call n t w name req = (r3, t1, w3)"
        by (auto simp: call_def)
      ultimately show ?thesis by (intro exI [of _ "Suc (Suc k)"]) simp
    qed
  qed
qed

subsection \<open>Dials of two callers\<close>

lemma thread_step_owes:
  assumes "\<not> done_flag t" and "0 < retry t"
    and "thread_step n name req (p, t, w) = (p', t', w')"
  shows "\<not> done_flag t' \<and> retry t' = retry t \<and> dials w + owes p \<le> dials w' + owes p'"
proof (cases p)
  case AtFirst
  with assms show ?thesis
    by (auto simp: conn_Call_def split: option.splits sum.splits if_splits)
next
  case (InOpenRetry i)
  with assms show ?thesis
    by (auto simp: open_conn_def split: option.splits if_splits)
next
  case AtReplay
  with assms show ?thesis
    by (auto simp: conn_Call_def split: option.splits)
next
  case (Completed r)
  with assms show ?thesis by auto
qed

lemma run_owes:
  assumes "\<not> done_flag t" and "0 < retry t"
    and "run n ca cb sched (pa, pb, t, w) = (pa', pb', t', w')"
  shows "dials w + owes pa + owes pb \<le> dials w' + owes pa' + owes pb'"
  using assms
proof (induction sched arbitrary: pa pb t w)
  case Nil
  then show ?case by (simp add: run_def)
next
  case (Cons c sched)
  obtain pa1 pb1 t1 w1 where s: "sys_step n ca cb (pa, pb, t, w) c = (pa1, pb1, t1, w1)"
    by (cases "sys_step n ca cb (pa, pb, t, w) c") auto
  have step: "\<not> done_flag t1 \<and> retry t1 = retry t \<and>
      dials w + owes pa + owes pb \<le> dials w1 + owes pa1 + owes pb1"
  proof (cases c)
    case CallerA
    with s have "thread_step n (fst ca) (snd ca) (pa, t, w) = (pa1, t1, w1)" "pb1 = pb"
      by (auto split: prod.splits)
    with thread_step_owes [OF Cons.prems(1,2), of n "fst ca" "snd ca" pa w pa1 t1 w1]
    show ?thesis by simp
  next
    case CallerB
    with s have "thread_step n (fst cb) (snd cb) (pb, t, w) = (pb1, t1, w1)" "pa1 = pa"
      by (auto split: prod.splits)
    with thread_step_owes [OF Cons.prems(1,2), of n "fst cb" "snd cb" pb w pb1 t1 w1]
    show ?thesis by simp
  qed
  from Cons.prems(3) s have "run n ca cb sched (pa1, pb1, t1, w1) = (pa', pb', t', w')"
    by (simp add: run_def)
  from Cons.IH [OF _ _ this] step Cons.prems(2)
  have "dials w1 + owes pa1 + owes pb1 \<le> dials w' + owes pa' + owes pb'"
    by simp
  with step show ?case by simp
qed

lemma thread_step_settled:
  assumes "reconnecting p" and "\<not> done_flag t" and "0 < retry t"
    and "\<forall>v ep. dial_result n v ep = None"
    and "thread_step n name req (p, t, w) = (p', t', w')"
  shows "reconnecting p' \<and> \<not> done_flag t' \<and> retry t' = retry t \<and>
    dials w' + owes p' = dials w + owes p \<and>
    (if dials w' = dials w then conn t' = conn t else conn t' = Some (dials w' - 1))"
proof (cases p)
  case AtFirst
  with assms show ?thesis by simp
next
  case (InOpenRetry i)
  with assms show ?thesis
    by (auto simp: open_conn_def split: option.splits if_splits)
next
  case AtReplay
  with assms show ?thesis
    by (auto simp: conn_Call_def split: option.splits)
next
  case (Completed r)
  with assms show ?thesis by auto
qed

lemma sys_step_settled:
  assumes "settled d s" and "\<forall>v ep. dial_result n v ep = None"
  shows "settled d (sys_step n ca cb s c)"
proof -
  obtain pa pb t w where s: "s = (pa, pb, t, w)"
    by (cases s) auto
  show ?thesis
  proof (cases c)
    case CallerA
    obtain p' t' w' where st: "thread_step n (fst ca) (snd ca) (pa, t, w) = (p', t', w')"
      by (cases "thread_step n (fst ca) (snd ca) (pa, t, w)") auto
    from assms(1) s have "reconnecting pa" "\<not> done_flag t" "0 < retry t"
      by (simp_all add: settled_def)
    from thread_step_settled [OF this assms(2) st] assms(1) s st CallerA show ?thesis
      by (auto simp: settled_def split: if_splits)
  next
    case CallerB
    obtain p' t' w' where st: "thread_step n (fst cb) (snd cb) (pb, t, w) = (p', t', w')"
      by (cases "thread_step n (fst cb) (snd cb) (pb, t, w)") auto
    from assms(1) s have "reconnecting pb" "\<not> done_flag t" "0 < retry t"
      by (simp_all add: settled_def)
    from thread_step_settled [OF this assms(2) st] assms(1) s st CallerB show ?thesis
      by (auto simp: settled_def split: if_splits)
  qed
qed

lemma run_settled:
  "settled d s \<Longrightarrow> \<forall>v ep. dial_result n v ep = None \<Longrightarrow> settled d (run n ca cb sched s)"
  by (induction sched arbitrary: s) (simp_all add: run_def sys_step_settled)

lemma run_Cons: "run n ca cb (c # sched) s = run n ca cb sched (sys_step n ca cb s c)"
  by (simp add: run_def)

lemma run_Nil: "run n ca cb [] s = s"
  by (simp add: run_def)

section \<open>The call invoker\<close>

text \<open>
  Claim C1. A call whose first attempt fails with \<open>ErrClosed\<close> or \<open>ErrUnexpectedEOF\<close> makes
  at most two network attempts. After the first attempt \<open>openRetry\<close> runs once. If it
  returns an error, that error is the result and the first attempt stays the only one.
  If it returns nil, the same call is issued once more on the connection that is current
  then, and whatever that second attempt gives (an answer or any error, another
  connectivity error included) is the result: two attempts, and no further round.
\<close>

theorem call_connectivity_retries_once:
  assumes c: "conn t = Some h"
    and r: "call_result n w h name req = Inl err"
    and e: "err = ErrClosed \<or> err = ErrUnexpectedEOF"
  shows "case openRetry n t (w @ [Call h name req]) of
      (r1, t1, w1) \<Rightarrow>
        (case call n t w name req of
           (r2, t2, w2) \<Rightarrow>
             attempts w2 \<le> attempts w + 2 \<and> t2 = t1 \<and>
             (case r1 of
                Some err1 \<Rightarrow> r2 = Return (Inl err1) \<and> w2 = w1 \<and> attempts w2 = attempts w + 1
              | None \<Rightarrow>
                  (case conn t1 of
                     None \<Rightarrow> False
                   | Some h1 \<Rightarrow>
                       r2 = Return (call_result n w1 h1 name req) \<and>
                       w2 = w1 @ [Call h1 name req] \<and> attempts w2 = attempts w + 2)))"
proof -
  obtain r1 t1 w1 where o: "openRetry n t (w @ [Call h name req]) = (r1, t1, w1)"
    by (cases "openRetry n t (w @ [Call h name req])") auto
  from openRetry_keeps [OF o] c
  have a1: "attempts w1 = attempts w + 1" and c1: "conn t1 \<noteq> None"
    by simp_all
  from c r e have first: "call n t w name req =
      (case openRetry n t (w @ [Call h name req]) of
         (Some err', t', w2) \<Rightarrow> (Return (Inl err'), t', w2)
       | (None, t', w2) \<Rightarrow> (case conn_Call n t' w2 name req of (r, w3) \<Rightarrow> (r, t', w3)))"
    by (auto simp: call_def conn_Call_Some)
  show ?thesis
  proof (cases r1)
    case (Some err1)
    with first o a1 show ?thesis by simp
  next
    case None
    from c1 obtain h1 where h1: "conn t1 = Some h1" by auto
    with None first o a1 show ?thesis
      by (simp add: conn_Call_Some)
  qed
qed

text \<open>
  A run of C1: every call on every connection fails with \<open>ErrClosed\<close>, dials succeed. The
  call is attempted on connection 7, the client dials once, the call is attempted on the
  new connection 0, and its \<open>ErrClosed\<close> is returned.
\<close>

theorem call_connectivity_retries_once_witness:
  "conn worker = Some 7 \<and>
   call_result (scripted_net None (\<lambda>h. Inl ErrClosed)) [] 7 methodUpdate (idReq ''1'') = Inl ErrClosed \<and>
   call (scripted_net None (\<lambda>h. Inl ErrClosed)) worker [] methodUpdate (idReq ''1'') =
     (Return (Inl ErrClosed), worker\<lparr>conn := Some 0\<rparr>,
      [Call 7 methodUpdate (idReq ''1''), Dial ''ws://queue'', Call 0 methodUpdate (idReq ''1'')]) \<and>
   attempts [Call 7 methodUpdate (idReq ''1''), Dial ''ws://queue'',
      Call 0 methodUpdate (idReq ''1'')] = 2"
  using call_connectivity_retries_once
    [of worker 7 "scripted_net None (\<lambda>h. Inl ErrClosed)" "[]" methodUpdate "idReq ''1''" ErrClosed]
  by (simp add: worker_def scripted_net_def openRetry_def loop_dialled call_def conn_Call_def)

text \<open>
  Claim C2. A call whose attempt fails with an error other than \<open>ErrClosed\<close> and
  \<open>ErrUnexpectedEOF\<close> returns that very error. The history grows by the one \<open>Call\<close> event
  only: one network attempt, no dial, and the client is unchanged.
\<close>

theorem call_other_error_single_attempt:
  assumes "conn t = Some h"
    and "call_result n w h name req = Inl err"
    and "err \<noteq> ErrClosed" and "err \<noteq> ErrUnexpectedEOF"
  shows "call n t w name req = (Return (Inl err), t, w @ [Call h name req]) \<and>
    attempts (w @ [Call h name req]) = attempts w + 1 \<and>
    dials (w @ [Call h name req]) = dials w"
  using assms by (simp add: call_def conn_Call_Some)

text \<open>A run of C2: the remote side rejects a \<open>save\<close> call.\<close>

theorem call_other_error_single_attempt_witness:
  "call (scripted_net None (\<lambda>h. Inl (OtherError ''invalid mime''))) worker []
      methodSave (saveReq ''1'' ''text/x'' [1, 2]) =
     (Return (Inl (OtherError ''invalid mime'')), worker,
      [Call 7 methodSave (saveReq ''1'' ''text/x'' [1, 2])])"
  using call_other_error_single_attempt
    [of worker 7 "scripted_net None (\<lambda>h. Inl (OtherError ''invalid mime''))" "[]"
        methodSave "saveReq ''1'' ''text/x'' [1, 2]" "OtherError ''invalid mime''"]
  by (simp add: worker_def scripted_net_def)

section \<open>The connection manager\<close>

text \<open>
  Claim C3. Once \<open>done\<close> is set, \<open>open\<close> returns \<open>io.EOF\<close> at once and leaves the history as it
  is: no dial. The same holds for every \<open>open\<close> that the retry loop issues: whenever the
  loop has a round left (\<open>i < retry\<close>), it stops in that round with \<open>io.EOF\<close>, without a
  dial and without waiting for the backoff. In no case does \<open>openRetry\<close> on a closed
  client dial or wait.
\<close>

theorem closed_client_never_dials:
  assumes "done_flag t"
  shows "open_conn n t w = (Some EOF, t, w) \<and>
    (\<forall>i. i < retry t \<longrightarrow> openRetry_loop n i t w = (Some EOF, t, w)) \<and>
    (0 < retry t \<longrightarrow> openRetry n t w = (Some EOF, t, w)) \<and>
    dials (snd (snd (openRetry n t w))) = dials w \<and>
    sleeps (snd (snd (openRetry n t w))) = sleeps w"
proof (cases "0 < retry t")
  case True
  with assms show ?thesis
    by (simp add: open_conn_done loop_done openRetry_def)
next
  case False
  with assms show ?thesis
    by (simp add: open_conn_done loop_done openRetry_def loop_over)
qed

text \<open>A run of C3: the client after \<open>Close\<close>.\<close>

theorem closed_client_never_dials_witness:
  "done_flag (fst (snd (Close dropped worker []))) \<and>
   open_conn dropped (fst (snd (Close dropped worker []))) [CloseConn 7] =
     (Some EOF, worker\<lparr>done_flag := True\<rparr>, [CloseConn 7]) \<and>
   openRetry dropped (fst (snd (Close dropped worker []))) [CloseConn 7] =
     (Some EOF, worker\<lparr>done_flag := True\<rparr>, [CloseConn 7])"
  using closed_client_never_dials [of "fst (snd (Close dropped worker []))" dropped "[CloseConn 7]"]
  by (simp add: Close_def worker_def)

text \<open>
  Claim C4. When the client is not closed and each of the \<open>retry\<close> dials of the loop fails
  with an error other than \<open>io.EOF\<close>, \<open>openRetry\<close> returns nil after \<open>retry\<close> rounds of dial
  and backoff, and the client is as before. With \<open>retry \<le> 0\<close> it returns nil and the
  history is unchanged: no dial at all.
\<close>

theorem openRetry_exhausted_is_success:
  "(\<not> done_flag t \<and>
    (\<forall>k < nat (retry t). non_terminal_failure (dial_result n (w @ backoff_rounds t k) (endpoint t)))
      \<longrightarrow> openRetry n t w = (None, t, w @ backoff_rounds t (nat (retry t))))
   \<and> (retry t \<le> 0 \<longrightarrow> openRetry n t w = (None, t, w))"
  by (auto simp: openRetry_def loop_over intro!: openRetry_loop_exhausted)

text \<open>A run of C4: three refused dials with a budget of three, and a budget of zero.\<close>

theorem openRetry_exhausted_is_success_witness:
  "openRetry (scripted_net (Some (OtherError ''connection refused'')) (\<lambda>h. Inl ErrClosed)) worker []
   = (None, worker,
      [Dial ''ws://queue'', Sleep 5, Dial ''ws://queue'', Sleep 5, Dial ''ws://queue'', Sleep 5])
   \<and> openRetry (scripted_net (Some (OtherError ''connection refused'')) (\<lambda>h. Inl ErrClosed))
     (worker\<lparr>retry := 0\<rparr>) [] = (None, worker\<lparr>retry := 0\<rparr>, [])"
  using openRetry_exhausted_is_success
    [of worker "scripted_net (Some (OtherError ''connection refused'')) (\<lambda>h. Inl ErrClosed)" "[]"]
    openRetry_exhausted_is_success
    [of "worker\<lparr>retry := 0\<rparr>"
        "scripted_net (Some (OtherError ''connection refused'')) (\<lambda>h. Inl ErrClosed)" "[]"]
  by (simp add: worker_def scripted_net_def backoff_rounds_def numeral_3_eq_3)

text \<open>
  Claim C8. Without options, \<open>NewClient\<close> is \<open>openRetry\<close> on a client whose \<open>retry\<close> is
  \<open>2^31 - 1\<close> and whose \<open>backoff\<close> is ten seconds in nanoseconds, and the client it returns
  still has these values and the endpoint given. Construction connects with them: when
  the first \<open>k\<close> dials are refused (\<open>k < 2^31 - 1\<close>) and the next one succeeds, \<open>NewClient\<close>
  has dialled \<open>k + 1\<close> times, has waited ten seconds after each refused dial, and returns
  the client with the connection of the last dial and a nil error; when all \<open>2^31 - 1\<close>
  dials are refused it stops after exactly that many rounds; when the first dial gives
  \<open>io.EOF\<close> it returns that error after the one dial.
\<close>

theorem NewClient_defaults:
  "NewClient n ep [] w = openRetry n (initClient ep) w \<and>
   retry (initClient ep) = 2 ^ 31 - 1 \<and>
   backoff (initClient ep) = 10 * 1000000000 \<and>
   retry (fst (snd (NewClient n ep [] w))) = 2 ^ 31 - 1 \<and>
   backoff (fst (snd (NewClient n ep [] w))) = 10 * 1000000000 \<and>
   endpoint (fst (snd (NewClient n ep [] w))) = ep \<and>
   (int k < 2 ^ 31 - 1 \<and>
    (\<forall>j < k. non_terminal_failure
       (dial_result n (w @ concat (replicate j [Dial ep, Sleep 10000000000])) ep)) \<and>
    dial_result n (w @ concat (replicate k [Dial ep, Sleep 10000000000])) ep = None \<longrightarrow>
      NewClient n ep [] w =
        (None, (initClient ep)\<lparr>conn := Some (dials w + k)\<rparr>,
         w @ concat (replicate k [Dial ep, Sleep 10000000000]) @ [Dial ep])) \<and>
   ((\<forall>j < 2 ^ 31 - 1. non_terminal_failure
       (dial_result n (w @ concat (replicate j [Dial ep, Sleep 10000000000])) ep)) \<longrightarrow>
      NewClient n ep [] w =
        (None, initClient ep, w @ concat (replicate (2 ^ 31 - 1) [Dial ep, Sleep 10000000000]))) \<and>
   (dial_result n w ep = Some EOF \<longrightarrow> NewClient n ep [] w = (Some EOF, initClient ep, w @ [Dial ep]))"
proof -
  let ?t = "initClient ep"
  have t: "\<not> done_flag ?t" "endpoint ?t = ep" "retry ?t = 2 ^ 31 - 1" "backoff ?t = 10000000000"
    by (simp_all add: initClient_def defaultRetryClount_def defaultBackoff_def Second_def)
  have rounds: "backoff_rounds ?t j = concat (replicate j [Dial ep, Sleep 10000000000])" for j
    by (simp add: backoff_rounds_def t)
  have new: "NewClient n ep [] w = openRetry_loop n 0 ?t w"
    by (simp add: NewClient_def openRetry_def)
  obtain r t' w' where o: "openRetry_loop n 0 ?t w = (r, t', w')"
    by (cases "openRetry_loop n 0 ?t w") auto
  from openRetry_loop_keeps [OF o] o new t
  have keeps: "retry (fst (snd (NewClient n ep [] w))) = 2 ^ 31 - 1 \<and>
      backoff (fst (snd (NewClient n ep [] w))) = 10 * 1000000000 \<and>
      endpoint (fst (snd (NewClient n ep [] w))) = ep"
    by simp
  have connects: "NewClient n ep [] w =
      (None, ?t\<lparr>conn := Some (dials w + k)\<rparr>,
       w @ concat (replicate k [Dial ep, Sleep 10000000000]) @ [Dial ep])"
    if "int k < 2 ^ 31 - 1"
      and "\<forall>j < k. non_terminal_failure
        (dial_result n (w @ concat (replicate j [Dial ep, Sleep 10000000000])) ep)"
      and "dial_result n (w @ concat (replicate k [Dial ep, Sleep 10000000000])) ep = None"
    using openRetry_loop_dials_after [of ?t k n w 0] that t
    by (simp add: new rounds)
  have exhausts: "NewClient n ep [] w =
      (None, ?t, w @ concat (replicate (2 ^ 31 - 1) [Dial ep, Sleep 10000000000]))"
    if "\<forall>j < 2 ^ 31 - 1. non_terminal_failure
        (dial_result n (w @ concat (replicate j [Dial ep, Sleep 10000000000])) ep)"
    using openRetry_loop_exhausted [of ?t "2 ^ 31 - 1" n w 0] that t
    by (simp add: new rounds)
  have closed: "NewClient n ep [] w = (Some EOF, ?t, w @ [Dial ep])"
    if "dial_result n w ep = Some EOF"
    using loop_eof [of 0 ?t n w] that t by (simp add: new)
  have init: "NewClient n ep [] w = openRetry n ?t w \<and> retry ?t = 2 ^ 31 - 1 \<and>
      backoff ?t = 10 * 1000000000"
    using t by (simp add: NewClient_def)
  from init keeps connects exhausts closed show ?thesis
    by blast
qed

text \<open>
  A run of C8: the endpoint refuses two dials; construction dials three times, with ten
  seconds after each refusal.
\<close>

theorem NewClient_defaults_witness:
  "NewClient starting ''ws://queue'' [] [] =
     (None, (initClient ''ws://queue'')\<lparr>conn := Some 2\<rparr>,
      [Dial ''ws://queue'', Sleep 10000000000, Dial ''ws://queue'', Sleep 10000000000,
       Dial ''ws://queue'']) \<and>
   retry (fst (snd (NewClient starting ''ws://queue'' [] []))) = 2147483647 \<and>
   backoff (fst (snd (NewClient starting ''ws://queue'' [] []))) = 10000000000"
proof -
  let ?round = "[Dial ''ws://queue'', Sleep 10000000000]"
  have budget: "int 2 < 2 ^ 31 - 1"
    by simp
  have refused: "\<forall>j < 2. non_terminal_failure
      (dial_result starting ([] @ concat (replicate j ?round)) ''ws://queue'')"
    by (auto simp: starting_def less_2_cases_iff)
  have accepted: "dial_result starting ([] @ concat (replicate 2 ?round)) ''ws://queue'' = None"
    by (simp add: starting_def numeral_2_eq_2)
  note inst = NewClient_defaults [where n = starting and ep = "''ws://queue''" and w = "[]"
      and k = 2]
  from inst budget refused accepted
  have "NewClient starting ''ws://queue'' [] [] =
      (None, (initClient ''ws://queue'')\<lparr>conn := Some (dials [] + 2)\<rparr>,
       [] @ concat (replicate 2 ?round) @ [Dial ''ws://queue''])"
    by blast
  then have run: "NewClient starting ''ws://queue'' [] [] =
      (None, (initClient ''ws://queue'')\<lparr>conn := Some 2\<rparr>,
       [Dial ''ws://queue'', Sleep 10000000000, Dial ''ws://queue'', Sleep 10000000000,
        Dial ''ws://queue''])"
    by (simp add: numeral_2_eq_2)
  from inst have "retry (fst (snd (NewClient starting ''ws://queue'' [] []))) = 2 ^ 31 - 1"
    and "backoff (fst (snd (NewClient starting ''ws://queue'' [] []))) = 10 * 1000000000"
    by blast+
  with run show ?thesis
    by simp
qed

text \<open>
  Claim C5, amended. On a client with a connection, \<open>Close\<close> sets \<open>done\<close> and returns what
  \<open>t.conn.Close()\<close> returns. A second \<open>Close\<close> leaves the client exactly as the first one
  left it, closes the same connection again, and returns what the connection's
  \<open>Close\<close> returns that second time; the client itself neither adds nor removes an error.
\<close>

theorem Close_twice_same_state:
  assumes "conn t = Some h"
  shows "Close n t w =
      (Return (close_result n w h), t\<lparr>done_flag := True\<rparr>, w @ [CloseConn h]) \<and>
    Close n (t\<lparr>done_flag := True\<rparr>) (w @ [CloseConn h]) =
      (Return (close_result n (w @ [CloseConn h]) h), t\<lparr>done_flag := True\<rparr>,
       w @ [CloseConn h, CloseConn h])"
  using assms by (simp add: Close_def)

text \<open>A run of the amended C5 on connection 7.\<close>

theorem Close_twice_same_state_witness:
  "Close dropped worker [] = (Return None, worker\<lparr>done_flag := True\<rparr>, [CloseConn 7]) \<and>
   Close dropped (worker\<lparr>done_flag := True\<rparr>) [CloseConn 7] =
     (Return (Some ErrClosed), worker\<lparr>done_flag := True\<rparr>, [CloseConn 7, CloseConn 7])"
  using Close_twice_same_state [of worker 7 dropped "[]"]
  by (simp add: worker_def dropped_def scripted_net_def)

text \<open>
  Claim C5 as stated fails: a closed \<open>jsonrpc2\<close> connection answers \<open>ErrClosed\<close> to \<open>Close\<close>,
  and the second \<open>Close\<close> of the client hands that error to its caller.
\<close>

theorem Close_twice_second_errors:
  "fst (Close dropped worker []) = Return None \<and>
   fst (Close dropped (fst (snd (Close dropped worker []))) (snd (snd (Close dropped worker []))))
     = Return (Some ErrClosed)"
  by (simp add: Close_def worker_def dropped_def scripted_net_def)

text \<open>
  Claim C10. On a client whose \<open>conn\<close> is nil, \<open>Close\<close> and \<open>call\<close> panic on the nil
  connection (\<open>Close\<close> after it has set \<open>done\<close>); on a client with a connection both return.
  \<open>NewClient\<close> leaves \<open>conn\<close> nil and returns a nil error whenever none of its \<open>retry\<close> dials
  succeeds and none fails with \<open>io.EOF\<close>; with \<open>retry \<le> 0\<close> that is every time.
\<close>

theorem nil_conn_panics:
  "(conn t = None \<longrightarrow>
      Close n t w = (Panic, t\<lparr>done_flag := True\<rparr>, w) \<and> call n t w name req = (Panic, t, w)) \<and>
   (conn t \<noteq> None \<longrightarrow>
      fst (Close n t w) \<noteq> Panic \<and> fst (call n t w name req) \<noteq> Panic) \<and>
   conn ((initClient ep)\<lparr>retry := k\<rparr>) = None \<and>
   ((\<forall>j < nat k. non_terminal_failure
        (dial_result n (w @ backoff_rounds ((initClient ep)\<lparr>retry := k\<rparr>) j) ep)) \<longrightarrow>
      NewClient n ep [\<lambda>c. c\<lparr>retry := k\<rparr>] w =
        (None, (initClient ep)\<lparr>retry := k\<rparr>,
         w @ backoff_rounds ((initClient ep)\<lparr>retry := k\<rparr>) (nat k)))"
proof -
  let ?t = "(initClient ep)\<lparr>retry := k\<rparr>"
  have nil: "Close n t w = (Panic, t\<lparr>done_flag := True\<rparr>, w) \<and> call n t w name req = (Panic, t, w)"
    if "conn t = None"
    using that by (simp add: Close_def call_def conn_Call_None)
  have some: "fst (Close n t w) \<noteq> Panic \<and> fst (call n t w name req) \<noteq> Panic"
    if "conn t \<noteq> None"
  proof -
    from that obtain h where h: "conn t = Some h" by auto
    then have "fst (Close n t w) \<noteq> Panic"
      by (simp add: Close_def)
    with call_returns [OF h] show ?thesis by simp
  qed
  have fresh: "conn ?t = None" "\<not> done_flag ?t" "endpoint ?t = ep" "retry ?t = k"
    by (simp_all add: initClient_def)
  have never: "NewClient n ep [\<lambda>c. c\<lparr>retry := k\<rparr>] w = (None, ?t, w @ backoff_rounds ?t (nat k))"
    if fails: "\<forall>j < nat k. non_terminal_failure (dial_result n (w @ backoff_rounds ?t j) ep)"
  proof -
    from fails fresh(3)
    have "\<forall>j < nat k. non_terminal_failure (dial_result n (w @ backoff_rounds ?t j) (endpoint ?t))"
      by simp
    from openRetry_loop_exhausted [OF fresh(2) this, of 0] fresh(4)
    show ?thesis
      by (simp add: NewClient_def openRetry_def)
  qed
  from nil some fresh(1) never show ?thesis
    by blast
qed

text \<open>
  A run of C10: a client built with a retry budget of zero, then \<open>Close\<close> and \<open>next\<close> on it;
  and the same two on a client with a connection.
\<close>

theorem nil_conn_panics_witness:
  "NewClient (scripted_net (Some (OtherError ''connection refused'')) (\<lambda>h. Inr noResult))
       ''ws://queue'' [\<lambda>c. c\<lparr>retry := 0\<rparr>] [] =
     (None, (initClient ''ws://queue'')\<lparr>retry := 0\<rparr>, []) \<and>
   conn ((initClient ''ws://queue'')\<lparr>retry := 0\<rparr>) = None \<and>
   Close (scripted_net (Some (OtherError ''connection refused'')) (\<lambda>h. Inr noResult))
       ((initClient ''ws://queue'')\<lparr>retry := 0\<rparr>) [] =
     (Panic, (initClient ''ws://queue'')\<lparr>retry := 0, done_flag := True\<rparr>, []) \<and>
   call (scripted_net (Some (OtherError ''connection refused'')) (\<lambda>h. Inr noResult))
       ((initClient ''ws://queue'')\<lparr>retry := 0\<rparr>) [] methodNext nilReq =
     (Panic, (initClient ''ws://queue'')\<lparr>retry := 0\<rparr>, []) \<and>
   fst (Close dropped worker []) \<noteq> Panic \<and>
   fst (call dropped worker [] methodNext nilReq) \<noteq> Panic"
  using nil_conn_panics
    [where t = "(initClient ''ws://queue'')\<lparr>retry := 0\<rparr>"
       and n = "scripted_net (Some (OtherError ''connection refused'')) (\<lambda>h. Inr noResult)"
       and w = "[]" and name = methodNext and req = nilReq and ep = "''ws://queue''" and k = 0]
    nil_conn_panics
    [where t = worker and n = dropped and w = "[]" and name = methodNext and req = nilReq
       and ep = "''ws://queue''" and k = 0]
  by (simp add: initClient_def worker_def backoff_rounds_def)

section \<open>The peer methods\<close>

text \<open>
  Claim C6. The client declares \<open>Next\<close>, \<open>Notify\<close>, \<open>Update\<close>, \<open>Save\<close> and \<open>Log\<close>, each through
  \<open>call\<close> with its method name. It declares no \<open>Extend\<close>, which the \<open>Peer\<close> interface
  requires.
\<close>

theorem client_has_no_Extend:
  "client_method PeerExtend = None \<and>
   map client_method [PeerNext, PeerNotify, PeerUpdate, PeerSave, PeerLog] =
     [Some ''next'', Some ''notify'', Some ''update'', Some ''save'', Some ''log'']"
  by (simp add: methodNext_def methodNotify_def methodUpdate_def methodSave_def methodLog_def)

text \<open>
  Claim C7. \<open>Save\<close> on a reader that gives the chunks \<open>cs\<close> and then ends (by running out,
  or by an explicit \<open>io.EOF\<close>) is one \<open>call\<close> of \<open>save\<close> whose request carries the id, the
  mime type and all the bytes of \<open>cs\<close>. On a reader that fails with an error other than
  \<open>io.EOF\<close>, \<open>Save\<close> returns that error, and client and history are unchanged: no remote
  call.
\<close>

theorem Save_buffers_then_calls:
  "Save n t w pid mime (map Chunk cs) =
     (case call n t w methodSave (saveReq pid mime (concat cs)) of
        (r, t', w') \<Rightarrow> (map_outcome error_of r, t', w')) \<and>
   Save n t w pid mime (map Chunk cs @ Fail EOF # rest) =
     (case call n t w methodSave (saveReq pid mime (concat cs)) of
        (r, t', w') \<Rightarrow> (map_outcome error_of r, t', w')) \<and>
   (err \<noteq> EOF \<longrightarrow>
     Save n t w pid mime (map Chunk cs @ Fail err # rest) = (Return (Some err), t, w))"
  by (simp add: Save_def ReadAll_def ReadAll_from_chunks ReadAll_from_fail)

text \<open>A run of C7: a reader of two chunks, and a reader that fails after them.\<close>

theorem Save_buffers_then_calls_witness:
  "Save dropped (worker\<lparr>conn := Some 0\<rparr>) [] ''1'' ''text/plain'' [Chunk [1, 2], Chunk [3]] =
     (Return None, worker\<lparr>conn := Some 0\<rparr>,
      [Call 0 methodSave (saveReq ''1'' ''text/plain'' [1, 2, 3])]) \<and>
   Save dropped (worker\<lparr>conn := Some 0\<rparr>) [] ''1'' ''text/plain''
       [Chunk [1, 2], Chunk [3], Fail (OtherError ''read failed''), Chunk [4]] =
     (Return (Some (OtherError ''read failed'')), worker\<lparr>conn := Some 0\<rparr>, [])"
  using Save_buffers_then_calls
    [where n = dropped and t = "worker\<lparr>conn := Some 0\<rparr>" and w = "[]" and pid = "''1''"
       and mime = "''text/plain''" and cs = "[[1, 2], [3]]"
       and err = "OtherError ''read failed''" and rest = "[Chunk [4]]"]
  by (simp add: worker_def dropped_def scripted_net_def call_def conn_Call_def)

section \<open>Two calls that fail together\<close>

text \<open>
  Claim C9, amended. When two calls on a client that is not closed and has a retry
  budget of at least one have both failed their first attempt with a connectivity
  error, each of them runs its own \<open>openRetry\<close>: in every interleaving in which both
  calls come to an end, at least two dials are made. When every dial succeeds, exactly
  two are made, one after the other, and the connection that stays current is the one
  of the second dial.
\<close>

theorem concurrent_reconnects_dial_twice:
  assumes nd: "\<not> done_flag t" and r: "0 < retry t"
    and run: "run n ca cb sched (InOpenRetry 0, InOpenRetry 0, t, w) =
        (Completed ra, Completed rb, t', w')"
  shows "dials w + 2 \<le> dials w' \<and>
    ((\<forall>v ep. dial_result n v ep = None) \<longrightarrow>
       dials w' = dials w + 2 \<and> conn t' = Some (dials w + 1))"
proof -
  from run_owes [OF nd r run] have least: "dials w + 2 \<le> dials w'"
    by simp
  have exact: "dials w' = dials w + 2 \<and> conn t' = Some (dials w + 1)"
    if ok: "\<forall>v ep. dial_result n v ep = None"
  proof -
    from nd r have "settled (dials w) (InOpenRetry 0, InOpenRetry 0, t, w)"
      by (simp add: settled_def)
    from run_settled [OF this ok, of ca cb sched] run show ?thesis
      by (auto simp: settled_def)
  qed
  from least exact show ?thesis
    by blast
qed

text \<open>
  A run of the amended C9: both callers have failed on connection 7; caller A dials,
  caller B dials, and both replay on the connection of the second dial.
\<close>

theorem concurrent_reconnects_dial_twice_witness:
  "run dropped (methodUpdate, idReq ''1'') (methodLog, logReq ''2'' None)
       [CallerA, CallerB, CallerB, CallerA]
       (InOpenRetry 0, InOpenRetry 0, worker,
        [Call 7 methodUpdate (idReq ''1''), Call 7 methodLog (logReq ''2'' None)]) =
     (Completed (Return (Inr noResult)), Completed (Return (Inr noResult)),
      worker\<lparr>conn := Some 1\<rparr>,
      [Call 7 methodUpdate (idReq ''1''), Call 7 methodLog (logReq ''2'' None),
       Dial ''ws://queue'', Dial ''ws://queue'',
       Call 1 methodLog (logReq ''2'' None), Call 1 methodUpdate (idReq ''1'')]) \<and>
   dials [Call 7 methodUpdate (idReq ''1''), Call 7 methodLog (logReq ''2'' None),
       Dial ''ws://queue'', Dial ''ws://queue'',
       Call 1 methodLog (logReq ''2'' None), Call 1 methodUpdate (idReq ''1'')] = 2"
  using concurrent_reconnects_dial_twice
    [where t = worker and n = dropped and ca = "(methodUpdate, idReq ''1'')"
       and cb = "(methodLog, logReq ''2'' None)" and sched = "[CallerA, CallerB, CallerB, CallerA]"
       and w = "[Call 7 methodUpdate (idReq ''1''), Call 7 methodLog (logReq ''2'' None)]"
       and ra = "Return (Inr noResult)" and rb = "Return (Inr noResult)"
       and t' = "worker\<lparr>conn := Some 1\<rparr>"
       and w' = "[Call 7 methodUpdate (idReq ''1''), Call 7 methodLog (logReq ''2'' None),
         Dial ''ws://queue'', Dial ''ws://queue'',
         Call 1 methodLog (logReq ''2'' None), Call 1 methodUpdate (idReq ''1'')]"]
  by (simp add: run_Cons run_Nil dropped_def scripted_net_def worker_def conn_Call_def
      open_conn_def)

text \<open>
  Claim C9 as stated fails. Both calls fail on connection 7 before either reconnects.
  Caller A dials and replays on connection 0; then caller B dials as well and replays
  on connection 1: two dials, and the replays are on different connections.
\<close>

theorem concurrent_reconnects_two_dials:
  "run dropped (methodUpdate, idReq ''1'') (methodLog, logReq ''2'' None)
       [CallerA, CallerB, CallerA, CallerA, CallerB, CallerB] (AtFirst, AtFirst, worker, []) =
     (Completed (Return (Inr noResult)), Completed (Return (Inr noResult)),
      worker\<lparr>conn := Some 1\<rparr>,
      [Call 7 methodUpdate (idReq ''1''), Call 7 methodLog (logReq ''2'' None),
       Dial ''ws://queue'', Call 0 methodUpdate (idReq ''1''),
       Dial ''ws://queue'', Call 1 methodLog (logReq ''2'' None)]) \<and>
   dials [Call 7 methodUpdate (idReq ''1''), Call 7 methodLog (logReq ''2'' None),
       Dial ''ws://queue'', Call 0 methodUpdate (idReq ''1''),
       Dial ''ws://queue'', Call 1 methodLog (logReq ''2'' None)] = 2"
  by (simp add: run_Cons run_Nil dropped_def scripted_net_def worker_def conn_Call_def
      open_conn_def)

end
